theory Spec2Isabelle
  imports Complex_Main
begin

section \<open>Shallow embedding of \<open>custom/ara/antenna.py\<close>\<close>

text \<open>
  The values of Python floats are embedded as real numbers.  Where the source turns a
  float into an integer or into a dictionary key, rounding decides the outcome: there the
  float operation is not replaced by the exact one but taken as a parameter of the model
  (\<open>float_ops\<close> below).  Every \<open>raise\<close> of the source, and every exception of a
  library call the source makes, is a value of type \<open>error\<close>.
\<close>

datatype error = ValueError | TypeError | KeyError | OverflowError | ZeroDivisionError

subsection \<open>The Signal carrier\<close>

text \<open>
  \<open>Signal\<close> is a class of the host framework (\<open>pyrex.signals\<close>); this module uses it
  and does not define it.  The source reads \<open>times\<close>, \<open>values\<close>, \<open>value_type\<close> and
  \<open>dt\<close> of a signal and builds signals with \<open>Signal(times, values)\<close> and
  \<open>Signal(times, values, value_type=...)\<close>.
\<close>

datatype ValueTypes = undefined_vt | voltage | field | power_vt
  \<comment> \<open>Modelled from the spec: the value-type tag of the Signal collaborator (section 6).
      \<open>voltage\<close> and \<open>field\<close> are the two tags the source names, \<open>power_vt\<close> is the
      "power" of section 8, and \<open>undefined_vt\<close> is the tag of a signal that is built without
      a value type, as \<open>front_end\<close> and \<open>tunnel_diode\<close> build their results.\<close>

record Signal =
  sig_times :: "real list"
  sig_values :: "real list"
  sig_value_type :: ValueTypes

definition Signal_init :: "real list \<Rightarrow> real list \<Rightarrow> ValueTypes \<Rightarrow> Signal" where
  \<comment> \<open>Modelled from the spec: the constructor of the Signal collaborator.  The values are
      cut or zero-padded to the number of times (the source relies on the cut at line 258).\<close>
  "Signal_init ts vs vt =
     \<lparr> sig_times = ts,
       sig_values = take (length ts) vs @ replicate (length ts - length vs) 0,
       sig_value_type = vt \<rparr>"

definition dt :: "Signal \<Rightarrow> real option" where
  \<comment> \<open>Modelled from the spec: \<open>signal.dt\<close>, the sample spacing of the Signal collaborator:
      the distance of the first two times, \<open>None\<close> when there are fewer than two.\<close>
  "dt s = (case sig_times s of t0 # t1 # _ \<Rightarrow> Some (t1 - t0) | _ \<Rightarrow> None)"

subsection \<open>Numeric helpers of Python and numpy\<close>

definition py_int :: "real \<Rightarrow> int" where
  \<comment> \<open>\<open>int(x)\<close> on a float: truncation towards zero.\<close>
  "py_int x = (if 0 \<le> x then \<lfloor>x\<rfloor> else \<lceil>x\<rceil>)"

record float_ops =
  fl_quotient :: "real \<Rightarrow> real \<Rightarrow> real option"
  fl_degrees :: "real \<Rightarrow> real option"
  fl_mod :: "real \<Rightarrow> real \<Rightarrow> real"
  \<comment> \<open>The float operations whose rounding decides an integer or a key:
      \<open>fl_quotient x y\<close> is the double \<open>x / y\<close>, \<open>fl_degrees x\<close> is \<open>np.degrees(x)\<close>
      (both \<open>None\<close> when the double is not finite), and \<open>fl_mod x m\<close> is the double
      \<open>x % m\<close>.  The model assumes nothing about them; \<open>double_ops\<close> below is the
      instance that rounds to 53 bits.\<close>

definition linspace :: "real \<Rightarrow> real \<Rightarrow> nat \<Rightarrow> real list" where
  \<comment> \<open>\<open>np.linspace(start, stop, num)\<close> with the end point included.\<close>
  "linspace start stop num =
     map (\<lambda>i. start + real i * ((stop - start) / real (num - 1))) [0..<num]"

definition mean :: "real list \<Rightarrow> real" where
  \<comment> \<open>\<open>np.mean\<close>\<close>
  "mean xs = sum_list xs / real (length xs)"

fun list_add :: "real list \<Rightarrow> real list \<Rightarrow> real list" where
  "list_add [] ys = ys"
| "list_add xs [] = xs"
| "list_add (x # xs) (y # ys) = (x + y) # list_add xs ys"

fun convolve :: "real list \<Rightarrow> real list \<Rightarrow> real list" where
  \<comment> \<open>\<open>scipy.signal.convolve(xs, ks, mode='full')\<close> for non-empty arguments: each sample
      of \<open>xs\<close> adds a scaled copy of \<open>ks\<close>, shifted to its position.\<close>
  "convolve [] ks = []"
| "convolve (x # xs) ks = list_add (map (\<lambda>k. x * k) ks) (0 # convolve xs ks)"

subsection \<open>Response tables and ARAAntenna\<close>

type_synonym response_key = "real \<times> int \<times> int"
type_synonym response_table = "response_key \<rightharpoonup> real \<times> real"
type_synonym vec3 = "real \<times> real \<times> real"

record ARAAntenna =
  response_data :: "response_table option"
  response_freqs :: "real list option"
  z_axis :: vec3
  efficiency :: real
  antenna_factor :: real
  resistance :: real
  signals :: "Signal list"

definition vdot :: "vec3 \<Rightarrow> vec3 \<Rightarrow> real" where
  "vdot a b = (case (a, b) of ((a0, a1, a2), (b0, b1, b2)) \<Rightarrow> a0 * b0 + a1 * b1 + a2 * b2)"

definition polarization_gain :: "ARAAntenna \<Rightarrow> vec3 \<Rightarrow> real" where
  "polarization_gain ant polarization = vdot (z_axis ant) polarization"

definition lookup_gain :: "response_table \<Rightarrow> response_key \<Rightarrow> error + real" where
  \<comment> \<open>\<open>self._response_data[key][0]\<close>\<close>
  "lookup_gain data key = (case data key of None \<Rightarrow> Inl KeyError | Some (gain, phase) \<Rightarrow> Inr gain)"

fun corner_gains ::
  "response_table \<Rightarrow> int \<Rightarrow> int \<Rightarrow> int \<Rightarrow> int \<Rightarrow> real list
     \<Rightarrow> error + (real \<times> real \<times> real \<times> real) list" where
  \<comment> \<open>The loop over the frequencies: four lookups for each, the first missing key raises.\<close>
  "corner_gains data theta_under theta_over phi_under phi_over [] = Inr []"
| "corner_gains data theta_under theta_over phi_under phi_over (freq # freqs) =
     (case lookup_gain data (freq, theta_under, phi_under) of
        Inl e \<Rightarrow> Inl e
      | Inr gain_ij \<Rightarrow>
     (case lookup_gain data (freq, theta_over, phi_under) of
        Inl e \<Rightarrow> Inl e
      | Inr gain_i1j \<Rightarrow>
     (case lookup_gain data (freq, theta_under, phi_over) of
        Inl e \<Rightarrow> Inl e
      | Inr gain_ij1 \<Rightarrow>
     (case lookup_gain data (freq, theta_over, phi_over) of
        Inl e \<Rightarrow> Inl e
      | Inr gain_i1j1 \<Rightarrow>
     (case corner_gains data theta_under theta_over phi_under phi_over freqs of
        Inl e \<Rightarrow> Inl e
      | Inr rest \<Rightarrow> Inr ((gain_ij, gain_i1j, gain_ij1, gain_i1j1) # rest))))))"

definition under_5 :: "real \<Rightarrow> int" where
  \<comment> \<open>\<open>5*int(x/5)\<close>.  The quotient is the exact one: for a double \<open>x\<close> between 0 and 360
      the double \<open>x/5\<close> has the same integer part.\<close>
  "under_5 x = 5 * py_int (x / 5)"

definition over_5 :: "real \<Rightarrow> int" where
  \<comment> \<open>\<open>5*(int(x/5)+1)\<close>, before it is wrapped\<close>
  "over_5 x = 5 * (py_int (x / 5) + 1)"

definition weight :: "real \<Rightarrow> real" where
  \<comment> \<open>\<open>t\<close> and \<open>u\<close>: \<open>(x - x_under) / (x_over - x_under)\<close>\<close>
  "weight x = (x - of_int (under_5 x)) / of_int (over_5 x - under_5 x)"

definition blend :: "real \<Rightarrow> real \<Rightarrow> real \<times> real \<times> real \<times> real \<Rightarrow> real" where
  "blend t u c = (case c of (gain_ij, gain_i1j, gain_ij1, gain_i1j1) \<Rightarrow>
     (1 - t) * (1 - u) * gain_ij + t * (1 - u) * gain_i1j +
     (1 - t) * u * gain_ij1 + t * u * gain_i1j1)"

definition generate_freq_gains ::
  "float_ops \<Rightarrow> ARAAntenna \<Rightarrow> real \<Rightarrow> real \<Rightarrow> error + (real list \<times> real list)" where
  \<comment> \<open>An angle whose \<open>np.degrees\<close> is not finite becomes nan under \<open>%\<close>, and \<open>int\<close>
      of nan raises ValueError.\<close>
  "generate_freq_gains ops ant theta phi =
     (case response_data ant of
        None \<Rightarrow> Inr ([1], [1])
      | Some data \<Rightarrow>
          (case fl_degrees ops theta of
             None \<Rightarrow> Inl ValueError
           | Some theta_d \<Rightarrow>
          (case fl_degrees ops phi of
             None \<Rightarrow> Inl ValueError
           | Some phi_d \<Rightarrow>
               let theta' = fl_mod ops theta_d 180;
                   phi' = fl_mod ops phi_d 360;
                   theta_under = under_5 theta';
                   theta_over = over_5 theta';
                   phi_under = under_5 phi';
                   phi_over = over_5 phi';
                   t = weight theta';
                   u = weight phi';
                   theta_over = theta_over mod 180;
                   phi_over = phi_over mod 360
               in (case response_freqs ant of
                     None \<Rightarrow> Inl TypeError
                   | Some freqs \<Rightarrow>
                       (case corner_gains data theta_under theta_over phi_under phi_over freqs of
                          Inl e \<Rightarrow> Inl e
                        | Inr corners \<Rightarrow> Inr (freqs, map (blend t u) corners))))))"

text \<open>
  The services \<open>receive\<close> takes from the framework: the band-pass filter of the base
  antenna (\<open>copy.filter_frequencies(self.response)\<close>), the filter by an interpolated gain
  curve (\<open>copy.filter_frequencies(interpolated_response)\<close>), the change to antenna
  coordinates and the normalisation of a vector.  They are parameters of the model.  The
  two filters may raise: \<open>np.interp\<close>, for one, raises on an empty gain curve.
\<close>

record framework =
  filter_response :: "Signal \<Rightarrow> error + Signal"
  filter_interpolated :: "real list \<Rightarrow> real list \<Rightarrow> Signal \<Rightarrow> error + Signal"
  convert_to_antenna_coordinates :: "vec3 \<Rightarrow> real \<times> real \<times> real"
  normalize :: "vec3 \<Rightarrow> vec3"

definition filtered_copy ::
  "framework \<Rightarrow> float_ops \<Rightarrow> ARAAntenna \<Rightarrow> Signal \<Rightarrow> vec3 option \<Rightarrow> error + Signal" where
  \<comment> \<open>The first part of \<open>receive\<close>, up to the second filter: the copy of the signal as a
      voltage, filtered.\<close>
  "filtered_copy fw ops ant signal origin =
     (case filter_response fw (Signal_init (sig_times signal) (sig_values signal) voltage) of
        Inl e \<Rightarrow> Inl e
      | Inr copy \<Rightarrow>
          (case origin of
             None \<Rightarrow> Inr copy
           | Some origin \<Rightarrow>
               (case convert_to_antenna_coordinates fw origin of (r, theta, phi) \<Rightarrow>
                  (case generate_freq_gains ops ant theta phi of
                     Inl e \<Rightarrow> Inl e
                   | Inr (freq_data, gain_data) \<Rightarrow>
                       filter_interpolated fw freq_data gain_data copy))))"

definition receive ::
  "framework \<Rightarrow> float_ops \<Rightarrow> ARAAntenna \<Rightarrow> Signal \<Rightarrow> vec3 option \<Rightarrow> vec3 option
     \<Rightarrow> error option \<times> ARAAntenna" where
  \<comment> \<open>The result is the exception raised, if any, and the antenna afterwards.  Without a
      polarization \<open>signal_factor\<close> is a Python number and its division by a zero
      \<open>antenna_factor\<close> raises ZeroDivisionError.  With a polarization it is a numpy scalar:
      the division by zero then raises nothing and gives inf or nan, which the reals do not
      have, so the values of the waveform appended in that case are outside the model.\<close>
  "receive fw ops ant signal origin polarization =
     (case filtered_copy fw ops ant signal origin of
        Inl e \<Rightarrow> (Some e, ant)
      | Inr copy \<Rightarrow>
          let p_gain = (case polarization of
                          None \<Rightarrow> 1
                        | Some polarization \<Rightarrow>
                            polarization_gain ant (normalize fw polarization));
              signal_factor = p_gain * efficiency ant
          in if sig_value_type signal = voltage then
               (None, ant\<lparr>signals := signals ant @
                         [copy\<lparr>sig_values := map (\<lambda>v. v * signal_factor) (sig_values copy)\<rparr>]\<rparr>)
             else if sig_value_type signal = field then
               (if antenna_factor ant = 0 \<and> polarization = None then (Some ZeroDivisionError, ant)
                else
                  let signal_factor = signal_factor / antenna_factor ant
                  in (None, ant\<lparr>signals := signals ant @
                         [copy\<lparr>sig_values := map (\<lambda>v. v * signal_factor) (sig_values copy)\<rparr>]\<rparr>))
             else (Some ValueError, ant))"

subsection \<open>ARAAntennaSystem\<close>

record ARAAntennaSystem =
  antenna :: ARAAntenna
  amplification :: real
  amplifier_clipping :: real
  power_threshold :: real
  power_mean :: real
  power_rms :: real

definition setup_antenna :: "(real list \<Rightarrow> Signal) \<Rightarrow> ARAAntennaSystem \<Rightarrow> ARAAntennaSystem" where
  \<comment> \<open>The calibration at the end of \<open>setup_antenna\<close>; \<open>make_noise\<close> is the noise
      generator of the framework's antenna.\<close>
  "setup_antenna make_noise sys =
     (let long_noise = make_noise (linspace 0 (1 / 10 ^ 6) 10001)
      in sys\<lparr> power_mean := mean (sig_values long_noise),
              power_rms := sqrt (mean (map (\<lambda>v. v ^ 2) (sig_values long_noise))) \<rparr>)"

datatype td_key = down1 | down2 | up

type_synonym td_tuple = "real \<times> real \<times> real \<times> real"

definition arg0 :: "td_tuple \<Rightarrow> real" where "arg0 a = fst a"
definition arg1 :: "td_tuple \<Rightarrow> real" where "arg1 a = fst (snd a)"
definition arg2 :: "td_tuple \<Rightarrow> real" where "arg2 a = fst (snd (snd a))"
definition arg3 :: "td_tuple \<Rightarrow> real" where "arg3 a = snd (snd (snd a))"

definition td_args_initial :: "td_key \<Rightarrow> td_tuple" where
  "td_args_initial k = (case k of
       down1 \<Rightarrow> (- 8 / 10, 15 / 10 ^ 9, 23 / 10 ^ 10, 0)
     | down2 \<Rightarrow> (- 2 / 10, 15 / 10 ^ 9, 4 / 10 ^ 9, 0)
     | up \<Rightarrow> (1, 18 / 10 ^ 9, 7 / 10 ^ 9, 10 ^ 9))"

definition td_args :: "td_key \<Rightarrow> td_tuple" where
  \<comment> \<open>\<open>_td_args['up']\<close> is replaced: its first component is computed from the others.\<close>
  "td_args = td_args_initial (up :=
     (- sqrt (2 * pi) *
        (arg0 (td_args_initial down1) * arg2 (td_args_initial down1) +
         arg0 (td_args_initial down2) * arg2 (td_args_initial down2)) /
        (2 * 10 ^ 18 * arg2 (td_args_initial up) ^ 3),
      snd (td_args_initial up)))"

definition td_fdown1 :: "real \<Rightarrow> real" where
  "td_fdown1 x = arg3 (td_args down1) + arg0 (td_args down1) *
     exp (- ((x - arg1 (td_args down1)) ^ 2) / (2 * arg2 (td_args down1) ^ 2))"

definition td_fdown2 :: "real \<Rightarrow> real" where
  "td_fdown2 x = arg3 (td_args down2) + arg0 (td_args down2) *
     exp (- ((x - arg1 (td_args down2)) ^ 2) / (2 * arg2 (td_args down2) ^ 2))"

definition td_fup :: "real \<Rightarrow> real" where
  "td_fup x = arg0 (td_args up) * (arg3 (td_args up) * (x - arg1 (td_args up))) ^ 2 *
     exp (- (x - arg1 (td_args up)) / arg2 (td_args up))"

definition diode_resp :: "real list \<Rightarrow> real list" where
  \<comment> \<open>\<open>diode_resp\<close> on the sample times: both down lobes, and the up lobe where
      \<open>times > _td_args['up'][1]\<close>.\<close>
  "diode_resp ts =
     map (\<lambda>x. td_fdown1 x + td_fdown2 x + (if x > arg1 (td_args up) then td_fup x else 0)) ts"

definition t_max :: real where
  "t_max = 1 / 10 ^ 7"

definition tunnel_diode :: "float_ops \<Rightarrow> ARAAntennaSystem \<Rightarrow> Signal \<Rightarrow> error + Signal" where
  \<comment> \<open>The exceptions besides the \<open>raise\<close> of the source: \<open>t_max/None\<close> is a TypeError,
      \<open>int\<close> of a quotient that is not finite (a zero spacing, an overflow) an
      OverflowError, and a negative number of kernel samples, an empty kernel or an empty
      signal a ValueError of \<open>np.linspace\<close> or of the convolution.  The division by the
      resistance is the exact one: at resistance 0 numpy gives inf and nan, which the reals
      do not have, and the values are outside the model.\<close>
  "tunnel_diode ops sys signal =
     (if sig_value_type signal \<noteq> voltage then Inl ValueError
      else case dt signal of
        None \<Rightarrow> Inl TypeError
      | Some d \<Rightarrow>
          (case fl_quotient ops t_max d of
             None \<Rightarrow> Inl OverflowError
           | Some q \<Rightarrow>
               let n_pts = py_int q
               in if n_pts + 1 \<le> 0 \<or> sig_values signal = [] then Inl ValueError
                  else
                    let ts = linspace 0 t_max (nat (n_pts + 1));
                        conv = convolve (map (\<lambda>v. v ^ 2 / resistance (antenna sys)) (sig_values signal))
                                        (diode_resp ts)
                    in Inr (Signal_init (sig_times signal) (map (\<lambda>c. c * d) conv) undefined_vt)))"

definition front_end :: "ARAAntennaSystem \<Rightarrow> Signal \<Rightarrow> Signal" where
  \<comment> \<open>\<open>np.clip(a, a_min, a_max)\<close> is \<open>minimum(a_max, maximum(a, a_min))\<close>.\<close>
  "front_end sys signal =
     (let amplified_values =
            map (\<lambda>v. min (amplifier_clipping sys) (max (v * amplification sys) (- amplifier_clipping sys)))
                (sig_values signal)
      in Signal_init (sig_times signal) amplified_values undefined_vt)"

definition low_trigger :: "ARAAntennaSystem \<Rightarrow> real" where
  "low_trigger sys = power_mean sys - power_rms sys * \<bar>power_threshold sys\<bar>"

definition high_trigger :: "ARAAntennaSystem \<Rightarrow> real" where
  "high_trigger sys = power_mean sys + power_rms sys * \<bar>power_threshold sys\<bar>"

definition trigger_values :: "ARAAntennaSystem \<Rightarrow> real list \<Rightarrow> error + bool" where
  \<comment> \<open>The comparison that ends \<open>trigger\<close>, on \<open>power_signal.values\<close>; \<open>np.min\<close> and
      \<open>np.max\<close> raise on an empty array.\<close>
  "trigger_values sys vs =
     (if vs = [] then Inl ValueError
      else Inr (Min (set vs) < low_trigger sys \<or> Max (set vs) > high_trigger sys))"

definition trigger :: "float_ops \<Rightarrow> ARAAntennaSystem \<Rightarrow> Signal \<Rightarrow> error + bool" where
  "trigger ops sys signal =
     (case tunnel_diode ops sys signal of
        Inl e \<Rightarrow> Inl e
      | Inr power_signal \<Rightarrow> trigger_values sys (sig_values power_signal))"

section \<open>The specification's formulas\<close>

text \<open>
  The definitions of this section follow the words of the specification, not the code; the
  theorems below compare them with the embedding above.
\<close>

definition nth0 :: "real list \<Rightarrow> nat \<Rightarrow> real" where
  \<comment> \<open>A sequence read as zero outside its support.\<close>
  "nth0 xs i = (if i < length xs then xs ! i else 0)"

definition full_convolution :: "real list \<Rightarrow> real list \<Rightarrow> nat \<Rightarrow> real" where
  \<comment> \<open>Sample \<open>i\<close> of the full discrete convolution of \<open>xs\<close> and \<open>ks\<close>.\<close>
  "full_convolution xs ks i =
     (\<Sum>j\<le>i. if j < length xs \<and> i - j < length ks then xs ! j * ks ! (i - j) else 0)"

definition Kernel :: "real \<Rightarrow> real" where
  \<comment> \<open>The three lobes of the specification, with its constants.\<close>
  "Kernel t =
     (- 8 / 10) * exp (- ((t - 15 / 10 ^ 9) ^ 2) / (2 * (23 / 10 ^ 10) ^ 2)) +
     (- 2 / 10) * exp (- ((t - 15 / 10 ^ 9) ^ 2) / (2 * (4 / 10 ^ 9) ^ 2)) +
     (if t > 18 / 10 ^ 9
      then (- sqrt (2 * pi) * ((- 8 / 10) * (23 / 10 ^ 10) + (- 2 / 10) * (4 / 10 ^ 9)) /
              (2 * 10 ^ 18 * (7 / 10 ^ 9) ^ 3)) *
           (10 ^ 9 * (t - 18 / 10 ^ 9)) ^ 2 * exp (- (t - 18 / 10 ^ 9) / (7 / 10 ^ 9))
      else 0)"

definition tunnel_diode_spec :: "real \<Rightarrow> real \<Rightarrow> nat \<Rightarrow> Signal \<Rightarrow> Signal" where
  \<comment> \<open>The full convolution of the squared values over the resistance with the kernel on the
      100 ns window, cut into \<open>n\<close> steps; the first samples only, each times the sample
      spacing \<open>d\<close>.\<close>
  "tunnel_diode_spec R d n signal =
     \<lparr> sig_times = sig_times signal,
       sig_values =
         map (\<lambda>i. full_convolution (map (\<lambda>v. v ^ 2 / R) (sig_values signal))
                     (map Kernel (linspace 0 (1 / 10 ^ 7) (n + 1))) i * d)
             [0..<length (sig_values signal)],
       sig_value_type = undefined_vt \<rparr>"

definition trigger_spec :: "float_ops \<Rightarrow> ARAAntennaSystem \<Rightarrow> Signal \<Rightarrow> error + bool" where
  \<comment> \<open>The specification's trigger: \<open>front_end\<close>, then \<open>tunnel_diode\<close>, then the band test.\<close>
  "trigger_spec ops sys signal =
     (case tunnel_diode ops sys (front_end sys signal) of
        Inl e \<Rightarrow> Inl e
      | Inr power_signal \<Rightarrow> trigger_values sys (sig_values power_signal))"

definition stored_gain :: "response_table \<Rightarrow> response_key \<Rightarrow> real" where
  "stored_gain data key = (case data key of Some (gain, phase) \<Rightarrow> gain | None \<Rightarrow> 0)"

definition rectangular :: "response_table \<Rightarrow> real list \<Rightarrow> bool" where
  "rectangular data freqs =
     (\<forall>f\<in>set freqs. \<forall>i\<in>{0..<36}. \<forall>j\<in>{0..<72}. data (f, 5 * i, 5 * j) \<noteq> None)"

definition surrounding_gains :: "response_table \<Rightarrow> real \<Rightarrow> real \<Rightarrow> real \<Rightarrow> real list" where
  \<comment> \<open>The gains stored at the four corners of the grid cell of the angles \<open>th\<close> and
      \<open>ph\<close>, in degrees.\<close>
  "surrounding_gains data f th ph =
     (let tu = 5 * \<lfloor>th / 5\<rfloor>;
          to = (tu + 5) mod 180;
          pu = 5 * \<lfloor>ph / 5\<rfloor>;
          po = (pu + 5) mod 360
      in [stored_gain data (f, tu, pu), stored_gain data (f, to, pu),
          stored_gain data (f, tu, po), stored_gain data (f, to, po)])"

section \<open>Double precision\<close>

text \<open>
  An instance of \<open>float_ops\<close>: the three operations with their results rounded to the
  nearest number of 53 significant bits, ties to even, as IEEE 754 doubles are.  Results so
  small that they are subnormal are not modelled.
\<close>

definition round_even :: "real \<Rightarrow> int" where
  "round_even y =
     (let f = \<lfloor>y\<rfloor>; r = y - of_int f
      in if r < 1 / 2 then f else if 1 / 2 < r then f + 1 else if even f then f else f + 1)"

definition rnd53 :: "real \<Rightarrow> real" where
  "rnd53 x =
     (if x = 0 then 0
      else let u = 2 powr (of_int \<lfloor>log 2 \<bar>x\<bar>\<rfloor> - 52) in u * of_int (round_even (x / u)))"

definition finite_double :: "real \<Rightarrow> real option" where
  "finite_double y = (if \<bar>y\<bar> < 2 ^ 1024 then Some y else None)"

definition c_fmod :: "real \<Rightarrow> real \<Rightarrow> real" where
  \<comment> \<open>C's \<open>fmod\<close>, which is exact: the remainder has the sign of \<open>x\<close>.\<close>
  "c_fmod x m = x - m * of_int (py_int (x / m))"

definition rad2deg :: real where
  \<comment> \<open>The double \<open>180.0 / pi\<close>, 57.29577951308232, by which \<open>np.degrees\<close> multiplies.\<close>
  "rad2deg = 8063664102031864 / 2 ^ 47"

definition double_ops :: float_ops where
  \<comment> \<open>\<open>%\<close> on doubles is \<open>fmod\<close>, to which the modulus is added when the signs differ.\<close>
  "double_ops =
     \<lparr> fl_quotient = (\<lambda>x y. if y = 0 then None else finite_double (rnd53 (x / y))),
       fl_degrees = (\<lambda>x. finite_double (rnd53 (x * rad2deg))),
       fl_mod = (\<lambda>x m. let r = c_fmod x m
                        in if r \<noteq> 0 \<and> (r < 0) \<noteq> (m < 0) then rnd53 (r + m) else r) \<rparr>"

section \<open>Example inputs\<close>

definition bare_antenna :: ARAAntenna where
  "bare_antenna = \<lparr> response_data = None, response_freqs = None, z_axis = (0, 0, 1),
       efficiency = 1, antenna_factor = 10 / 3, resistance = 100, signals = [] \<rparr>"

definition muted_system :: ARAAntennaSystem where
  \<comment> \<open>No gain in the amplifier, and the calibration of a noiseless antenna.\<close>
  "muted_system = \<lparr> antenna = bare_antenna, amplification = 0, amplifier_clipping = 3,
       power_threshold = 5, power_mean = 0, power_rms = 0 \<rparr>"

definition unit_system :: ARAAntennaSystem where
  "unit_system = \<lparr> antenna = bare_antenna, amplification = 1, amplifier_clipping = 3,
       power_threshold = 5, power_mean = 0, power_rms = 1 \<rparr>"

definition pulse :: Signal where
  "pulse = \<lparr> sig_times = [0, 1 / 10 ^ 7], sig_values = [1, 0], sig_value_type = voltage \<rparr>"

definition silence :: Signal where
  "silence = \<lparr> sig_times = [0, 1 / 10 ^ 7], sig_values = [0, 0], sig_value_type = voltage \<rparr>"

definition spike_noise :: "real list \<Rightarrow> Signal" where
  \<comment> \<open>A noise generator: zero at every time but the last, where it is one volt.\<close>
  "spike_noise ts = \<lparr> sig_times = ts, sig_values = replicate (length ts - 1) 0 @ [1],
       sig_value_type = voltage \<rparr>"

definition grid_table :: response_table where
  "grid_table = (\<lambda>(f, th, ph).
      if f = 5 * 10 ^ 8 \<and> 0 \<le> th \<and> th < 180 \<and> th mod 5 = 0 \<and> 0 \<le> ph \<and> ph < 360 \<and> ph mod 5 = 0
      then Some (of_int (th + ph), 0) else None)"

definition grid_antenna :: ARAAntenna where
  "grid_antenna = bare_antenna\<lparr> response_data := Some grid_table,
                                 response_freqs := Some [5 * 10 ^ 8] \<rparr>"

definition radians_15 :: real where
  \<comment> \<open>The double \<open>np.radians(15)\<close>, 0.2617993877991494.\<close>
  "radians_15 = 4716158501352293 / 2 ^ 54"

definition radians_90 :: real where
  \<comment> \<open>The double \<open>np.pi / 2\<close>, 1.5707963267948966.\<close>
  "radians_90 = 7074237752028440 / 2 ^ 52"

definition empty_table_antenna :: ARAAntenna where
  \<comment> \<open>An antenna built with \<open>response_data={}\<close>: the constructor derives the empty
      frequency set.\<close>
  "empty_table_antenna = bare_antenna\<lparr> response_data := Some Map.empty, response_freqs := Some [] \<rparr>"

definition flat_antenna :: ARAAntenna where
  \<comment> \<open>An antenna of infinite effective height: \<open>antenna_factor = 1/effective_height\<close> is 0.\<close>
  "flat_antenna = bare_antenna\<lparr> antenna_factor := 0 \<rparr>"


definition plain_framework :: framework where
  \<comment> \<open>Filters that pass every signal unchanged, but for the ValueError of \<open>np.interp\<close> on
      an empty gain curve; every origin is seen at 90 degrees from the axis.\<close>
  "plain_framework = \<lparr> filter_response = (\<lambda>s. Inr s),
       filter_interpolated = (\<lambda>freq_data gain_data s. if freq_data = [] then Inl ValueError else Inr s),
       convert_to_antenna_coordinates = (\<lambda>(x, y, z). (1, radians_90, 0)),
       normalize = (\<lambda>v. v) \<rparr>"

section \<open>The tunnel diode\<close>

subsection \<open>Convolution by recursion and by index\<close>

lemma nth0_Nil [simp]: "nth0 [] i = 0"
  by (simp add: nth0_def)

lemma nth0_Cons: "nth0 (x # xs) i = (case i of 0 \<Rightarrow> x | Suc j \<Rightarrow> nth0 xs j)"
  by (simp add: nth0_def split: nat.split)

lemma nth0_list_add: "nth0 (list_add xs ys) i = nth0 xs i + nth0 ys i"
  by (induction xs ys arbitrary: i rule: list_add.induct) (simp_all add: nth0_Cons split: nat.split)

lemma nth0_map_scale: "nth0 (map (\<lambda>k. c * k) ks) i = c * nth0 ks i"
  by (simp add: nth0_def)

lemma full_convolution_Nil [simp]: "full_convolution [] ks i = 0"
  by (simp add: full_convolution_def)

lemma full_convolution_Cons:
  "full_convolution (x # xs) ks i =
     x * nth0 ks i + (case i of 0 \<Rightarrow> 0 | Suc j \<Rightarrow> full_convolution xs ks j)"
proof (cases i)
  case 0
  then show ?thesis by (simp add: full_convolution_def nth0_def)
next
  case (Suc n)
  have "full_convolution (x # xs) ks (Suc n) =
        (if Suc n < length ks then x * ks ! Suc n else 0) +
        (\<Sum>j\<le>n. if j < length xs \<and> n - j < length ks then xs ! j * ks ! (n - j) else 0)"
    unfolding full_convolution_def
    by (subst sum.atMost_Suc_shift) (simp cong: if_cong)
  then show ?thesis using Suc by (simp add: full_convolution_def nth0_def)
qed

lemma nth0_convolve: "nth0 (convolve xs ks) i = full_convolution xs ks i"
proof (induction xs arbitrary: i)
  case Nil
  then show ?case by simp
next
  case (Cons x xs)
  show ?case
    by (simp add: nth0_list_add nth0_map_scale full_convolution_Cons nth0_Cons Cons.IH
             split: nat.split)
qed

lemma full_convolution_zeros:
  "full_convolution (replicate n 0 @ xs) ks i =
     (if i < n then 0 else full_convolution xs ks (i - n))"
  by (induction n arbitrary: i) (auto simp: full_convolution_Cons split: nat.split)

lemma full_convolution_0: "full_convolution (x # xs) ks 0 = x * nth0 ks 0"
  by (simp add: full_convolution_Cons)

lemma Signal_init_values:
  "sig_values (Signal_init ts vs vt) = map (nth0 vs) [0..<length ts]"
  by (rule nth_equalityI) (auto simp: Signal_init_def nth0_def nth_append)

subsection \<open>The kernel\<close>

lemma diode_resp_Kernel: "diode_resp ts = map Kernel ts"
  by (simp add: diode_resp_def Kernel_def td_fdown1_def td_fdown2_def td_fup_def
        td_args_def td_args_initial_def arg0_def arg1_def arg2_def arg3_def)

lemma down_lobes_neg: "(- 8 / 10) * exp a + (- 2 / 10) * exp b < (0::real)"
proof -
  have "0 < exp a" "0 < exp b" by simp_all
  then show ?thesis by linarith
qed

lemma Kernel_early: "t \<le> 18 / 10 ^ 9 \<Longrightarrow> Kernel t < 0"
  unfolding Kernel_def using down_lobes_neg by simp

lemma Kernel_0_neg: "Kernel 0 < 0"
  by (rule Kernel_early) simp

lemma nth0_Kernel_window: "nth0 (map Kernel (linspace 0 b (Suc m))) 0 = Kernel 0"
  by (simp add: linspace_def nth0_def nth_append del: upt_Suc)

subsection \<open>The code computes the specification's waveform\<close>

lemma dt_Some_length: "dt s = Some d \<Longrightarrow> 2 \<le> length (sig_times s)"
  by (auto simp: dt_def split: list.splits)

lemma length_linspace [simp]: "length (linspace a b n) = n"
  by (simp add: linspace_def)

lemma dt_linspace:
  assumes "sig_times s = linspace 0 b (Suc (Suc m))"
  shows "dt s = Some (b / real (Suc m))"
proof -
  have "[0..<Suc (Suc m)] = 0 # Suc 0 # [Suc (Suc 0)..<Suc (Suc m)]"
    by (simp add: upt_conv_Cons del: upt_Suc)
  then show ?thesis using assms by (simp add: dt_def linspace_def del: upt_Suc)
qed

lemma tunnel_diode_values:
  assumes "sig_value_type signal = voltage" and "dt signal = Some d"
    and "fl_quotient ops t_max d = Some q" and "0 \<le> py_int q"
    and "sig_values signal \<noteq> []"
  shows "tunnel_diode ops sys signal =
           Inr (Signal_init (sig_times signal)
                  (map (\<lambda>c. c * d)
                     (convolve (map (\<lambda>v. v ^ 2 / resistance (antenna sys)) (sig_values signal))
                        (diode_resp (linspace 0 t_max (nat (py_int q) + 1)))))
                  undefined_vt)"
proof -
  have "nat (py_int q + 1) = nat (py_int q) + 1" using assms(4) by linarith
  then show ?thesis using assms by (simp add: tunnel_diode_def Let_def)
qed

lemma tunnel_diode_refines:
  assumes a: "sig_value_type signal = voltage" "dt signal = Some d"
      "fl_quotient ops t_max d = Some q" "0 \<le> py_int q"
      "length (sig_values signal) = length (sig_times signal)"
  shows "tunnel_diode ops sys signal =
           Inr (tunnel_diode_spec (resistance (antenna sys)) d (nat (py_int q)) signal)"
proof -
  let ?conv = "map (\<lambda>c. c * d)
                     (convolve (map (\<lambda>v. v ^ 2 / resistance (antenna sys)) (sig_values signal))
                        (diode_resp (linspace 0 t_max (nat (py_int q) + 1))))"
  have ne: "sig_values signal \<noteq> []" using a dt_Some_length [of signal d] by auto
  have run: "tunnel_diode ops sys signal = Inr (Signal_init (sig_times signal) ?conv undefined_vt)"
    using a ne by (intro tunnel_diode_values) simp_all
  have v: "\<And>cs i. nth0 (map (\<lambda>c. c * d) cs) i = nth0 cs i * d"
    by (simp add: nth0_def)
  have "sig_values (Signal_init (sig_times signal) ?conv undefined_vt) =
        sig_values (tunnel_diode_spec (resistance (antenna sys)) d (nat (py_int q)) signal)"
    using a unfolding Signal_init_values tunnel_diode_spec_def
    by (simp add: v nth0_convolve diode_resp_Kernel t_max_def)
  then have "Signal_init (sig_times signal) ?conv undefined_vt =
             tunnel_diode_spec (resistance (antenna sys)) d (nat (py_int q)) signal"
    by (simp add: Signal_init_def tunnel_diode_spec_def)
  then show ?thesis using run by simp
qed

lemma spec_first_sample:
  assumes "sig_values signal = v # vs"
  shows "sig_values (tunnel_diode_spec R d n signal) \<noteq> []"
    and "hd (sig_values (tunnel_diode_spec R d n signal)) = v ^ 2 / R * Kernel 0 * d"
  using assms
  by (simp_all add: tunnel_diode_spec_def hd_map full_convolution_0 nth0_Kernel_window
        del: upt_Suc)

lemma spec_zero_signal:
  assumes "sig_values signal = replicate k 0"
  shows "sig_values (tunnel_diode_spec R d n signal) = replicate k 0"
proof -
  have "\<And>ks i. full_convolution (replicate k 0) ks i = 0"
    using full_convolution_zeros [of k "[]"] by simp
  then show ?thesis using assms
    by (simp add: tunnel_diode_spec_def map_replicate_const)
qed

lemma spec_spike:
  assumes "sig_values s = replicate k 0 @ [c]"
  shows "sig_values (tunnel_diode_spec R d n s) = replicate k 0 @ [c ^ 2 / R * Kernel 0 * d]"
proof -
  let ?ks = "map Kernel (linspace 0 (1 / 10 ^ 7) (n + 1))"
  have kn: "nth0 ?ks 0 = Kernel 0" using nth0_Kernel_window by simp
  have m: "map (\<lambda>v. v ^ 2 / R) (sig_values s) = replicate k 0 @ [c ^ 2 / R]"
    using assms by simp
  have f: "\<And>i. full_convolution (replicate k 0 @ [c ^ 2 / R]) ?ks i =
             (if i < k then 0 else c ^ 2 / R * nth0 ?ks (i - k))"
    by (simp add: full_convolution_zeros full_convolution_Cons split: nat.split)
  have "sig_values (tunnel_diode_spec R d n s) =
          map (\<lambda>i. (if i < k then 0 else c ^ 2 / R * nth0 ?ks (i - k)) * d) [0..<Suc k]"
    unfolding tunnel_diode_spec_def m f using assms by simp
  also have "\<dots> = replicate k 0 @ [c ^ 2 / R * nth0 ?ks 0 * d]"
    by (auto intro: nth_equalityI)
  also have "\<dots> = replicate k 0 @ [c ^ 2 / R * Kernel 0 * d]"
    by (simp only: kn)
  finally show ?thesis .
qed

subsection \<open>The double instance at the examples\<close>

lemma floor_log2_scaled:
  assumes "2 ^ 52 \<le> \<bar>y\<bar>" and "\<bar>y\<bar> < 2 ^ 53"
  shows "\<lfloor>log 2 (\<bar>y\<bar> * 2 powr of_int j)\<rfloor> = j + 52"
proof -
  have pos: "0 < \<bar>y\<bar>" using assms(1) by (smt (verit) zero_less_power)
  have l: "log 2 (\<bar>y\<bar> * 2 powr of_int j) = log 2 \<bar>y\<bar> + of_int j"
    using pos by (simp add: log_mult)
  have "(2::real) powr 52 \<le> \<bar>y\<bar>" "\<bar>y\<bar> < 2 powr 53" using assms by simp_all
  then have "52 \<le> log 2 \<bar>y\<bar>" "log 2 \<bar>y\<bar> < 53"
    using pos by (simp_all add: le_log_iff log_less_iff)
  then show ?thesis unfolding l by linarith
qed

lemma rnd53_scaled:
  assumes "2 ^ 52 \<le> \<bar>y\<bar>" and "\<bar>y\<bar> < 2 ^ 53"
  shows "rnd53 (y * 2 powr of_int j) = of_int (round_even y) * 2 powr of_int j"
proof -
  have ne: "y \<noteq> 0" using assms(1) by auto
  have a: "\<bar>y * 2 powr of_int j\<bar> = \<bar>y\<bar> * 2 powr of_int j" by (simp add: abs_mult)
  have u: "2 powr (of_int \<lfloor>log 2 \<bar>y * 2 powr of_int j\<bar>\<rfloor> - 52) = 2 powr of_int j"
    unfolding a floor_log2_scaled [OF assms] by simp
  show ?thesis using ne unfolding rnd53_def u by (simp add: Let_def)
qed

lemma rnd53_div_pow:
  assumes "2 ^ 52 \<le> \<bar>y\<bar>" and "\<bar>y\<bar> < 2 ^ 53"
  shows "rnd53 (y / 2 ^ n) = of_int (round_even y) / 2 ^ n"
  using rnd53_scaled [OF assms, of "- int n"] by (simp add: powr_minus powr_realpow field_simps)

lemma round_even_numeral [simp]:
  "round_even (numeral k) = numeral k" "round_even (- numeral k) = - numeral k"
  by (simp_all add: round_even_def)

lemma rnd53_1: "rnd53 1 = 1"
  using rnd53_div_pow [of "2 ^ 52" 52] by simp

lemma rnd53_1000: "rnd53 1000 = 1000"
proof -
  have "rnd53 (8796093022208000 / 2 ^ 43) = of_int (round_even 8796093022208000) / 2 ^ 43"
    by (rule rnd53_div_pow) simp_all
  then show ?thesis by simp
qed

lemma quotient_same: "x \<noteq> 0 \<Longrightarrow> fl_quotient double_ops x x = Some 1"
  by (simp add: double_ops_def rnd53_1 finite_double_def)

lemma quotient_1000: "fl_quotient double_ops t_max (1 / 10 ^ 10) = Some 1000"
  by (simp add: double_ops_def t_max_def rnd53_1000 finite_double_def)

lemma quotient_pulse: "fl_quotient double_ops t_max (1 / 10 ^ 7) = Some 1"
  using quotient_same [of t_max] by (simp add: t_max_def)

lemma py_int_1 [simp]: "py_int 1 = 1"
  by (simp add: py_int_def)




text \<open>
  C8.  The amplitude stored for the \<open>up\<close> lobe is
  \<open>-sqrt(2 pi) (A1 sigma1 + A2 sigma2) / (2e18 sigma3^3)\<close> at \<open>A1 = -0.8\<close>,
  \<open>sigma1 = 2.3 ns\<close>, \<open>A2 = -0.2\<close>, \<open>sigma2 = 4 ns\<close>, \<open>sigma3 = 7 ns\<close>; in lowest terms
  it is \<open>33 sqrt(2 pi) / 8575\<close>.
\<close>

theorem td_up_amplitude:
  "arg0 (td_args up) =
     - sqrt (2 * pi) * ((- 8 / 10) * (23 / 10 ^ 10) + (- 2 / 10) * (4 / 10 ^ 9)) /
       (2 * 10 ^ 18 * (7 / 10 ^ 9) ^ 3)
   \<and> arg0 (td_args up) = sqrt (2 * pi) * 33 / 8575"
  by (simp add: td_args_def td_args_initial_def arg0_def arg2_def power3_eq_cube field_simps)

section \<open>The trigger\<close>

lemma tunnel_diode_antenna_only:
  "antenna sys' = antenna sys \<Longrightarrow> tunnel_diode ops sys' signal = tunnel_diode ops sys signal"
  by (simp add: tunnel_diode_def Let_def split: option.split)

lemma trigger_values_band_only:
  "low_trigger sys' = low_trigger sys \<Longrightarrow> high_trigger sys' = high_trigger sys
     \<Longrightarrow> trigger_values sys' vs = trigger_values sys vs"
  by (simp add: trigger_values_def)

lemma muted_band: "low_trigger muted_system = 0" "high_trigger muted_system = 0"
  by (simp_all add: low_trigger_def high_trigger_def muted_system_def)

lemma Min_le_hd: "vs \<noteq> [] \<Longrightarrow> Min (set vs) \<le> hd vs"
  by simp

lemma dt_pulse: "dt pulse = Some (1 / 10 ^ 7)"
  by (simp add: dt_def pulse_def)

lemma trigger_pulse: "trigger double_ops muted_system pulse = Inr True"
proof -
  let ?p = "tunnel_diode_spec 100 (1 / 10 ^ 7) 1 pulse"
  have run: "tunnel_diode double_ops muted_system pulse = Inr ?p"
    using tunnel_diode_refines [of pulse "1 / 10 ^ 7" double_ops 1 muted_system] dt_pulse
      quotient_pulse
    by (simp add: pulse_def muted_system_def bare_antenna_def)
  have pv: "sig_values pulse = 1 # [0]" by (simp add: pulse_def)
  have "hd (sig_values ?p) < 0"
    by (simp add: spec_first_sample(2) [OF pv] Kernel_0_neg)
  moreover have ne: "sig_values ?p \<noteq> []" by (rule spec_first_sample(1) [OF pv])
  ultimately have "Min (set (sig_values ?p)) < 0"
    using Min_le_hd [OF ne] by linarith
  then show ?thesis using run ne
    by (simp add: trigger_def trigger_values_def muted_band)
qed

lemma front_end_muted:
  "(front_end muted_system pulse)\<lparr>sig_value_type := voltage\<rparr> =
     \<lparr> sig_times = [0, 1 / 10 ^ 7], sig_values = replicate 2 0, sig_value_type = voltage \<rparr>"
  by (simp add: front_end_def muted_system_def pulse_def Signal_init_def numeral_2_eq_2)

lemma tunnel_diode_silence:
  "tunnel_diode double_ops unit_system silence = Inr (tunnel_diode_spec 100 (1 / 10 ^ 7) 1 silence)"
  using tunnel_diode_refines [of silence "1 / 10 ^ 7" double_ops 1 unit_system] quotient_pulse
  by (simp add: silence_def dt_def unit_system_def bare_antenna_def)

lemma spec_silence: "sig_values (tunnel_diode_spec 100 (1 / 10 ^ 7) 1 silence) = [0, 0]"
  using spec_zero_signal [of silence 2 100 "1 / 10 ^ 7" 1]
  by (simp add: silence_def numeral_2_eq_2)

lemma mean_spike: "mean (replicate n 0 @ [x]) = x / real (Suc n)"
  by (simp add: mean_def sum_list_replicate)

text \<open>
  C1, as the specification states it: \<open>trigger\<close> runs \<open>front_end\<close> and then
  \<open>tunnel_diode\<close> on its input, which is \<open>trigger_spec\<close>.  The code differs on the
  signal \<open>pulse\<close> at a system whose amplifier has gain zero: \<open>trigger\<close> fires on the raw
  pulse, while the output of \<open>front_end\<close> is rejected by \<open>tunnel_diode\<close> for its value
  type, and would not fire even if it were tagged as a voltage.  The spacing of the pulse
  is the length of the window, so the double quotient is exactly one.
\<close>

theorem trigger_skips_front_end_counterexample:
  "trigger double_ops muted_system pulse \<noteq> trigger_spec double_ops muted_system pulse
   \<and> trigger double_ops muted_system pulse = Inr True
   \<and> trigger double_ops muted_system ((front_end muted_system pulse)\<lparr>sig_value_type := voltage\<rparr>)
       = Inr False"
proof -
  have s: "trigger_spec double_ops muted_system pulse = Inl ValueError"
    by (simp add: trigger_spec_def front_end_def Signal_init_def tunnel_diode_def)
  let ?z = "\<lparr> sig_times = [0, 1 / 10 ^ 7], sig_values = replicate 2 0, sig_value_type = voltage \<rparr>"
  have d: "dt ?z = Some (1 / 10 ^ 7)" by (simp add: dt_def)
  have run: "tunnel_diode double_ops muted_system ?z = Inr (tunnel_diode_spec 100 (1 / 10 ^ 7) 1 ?z)"
    using tunnel_diode_refines [of ?z "1 / 10 ^ 7" double_ops 1 muted_system] d quotient_pulse
    by (simp add: muted_system_def bare_antenna_def)
  have vs: "sig_values (tunnel_diode_spec 100 (1 / 10 ^ 7) 1 ?z) = replicate 2 0"
    by (rule spec_zero_signal) simp
  have "trigger double_ops muted_system ?z = Inr False"
    using run vs by (simp add: trigger_def trigger_values_def muted_band)
  then show ?thesis using s trigger_pulse by (simp add: front_end_muted)
qed

text \<open>
  C1, amended: \<open>trigger\<close> applies \<open>tunnel_diode\<close> to its input as it is given and makes
  the threshold comparison on that output; it does not run \<open>front_end\<close>, so its result
  does not depend on the amplification or on the clipping level.
\<close>

theorem trigger_tunnel_diode_only:
  "trigger ops sys signal =
     (case tunnel_diode ops sys signal of
        Inl e \<Rightarrow> Inl e
      | Inr power_signal \<Rightarrow> trigger_values sys (sig_values power_signal))
   \<and> trigger ops (sys\<lparr>amplification := a, amplifier_clipping := c\<rparr>) signal = trigger ops sys signal"
proof
  show "trigger ops sys signal =
     (case tunnel_diode ops sys signal of
        Inl e \<Rightarrow> Inl e
      | Inr power_signal \<Rightarrow> trigger_values sys (sig_values power_signal))"
    by (simp add: trigger_def)
next
  let ?sys' = "sys\<lparr>amplification := a, amplifier_clipping := c\<rparr>"
  have td: "tunnel_diode ops ?sys' signal = tunnel_diode ops sys signal"
    by (rule tunnel_diode_antenna_only) simp
  have tv: "\<And>vs. trigger_values ?sys' vs = trigger_values sys vs"
    by (rule trigger_values_band_only) (simp_all add: low_trigger_def high_trigger_def)
  show "trigger ops ?sys' signal = trigger ops sys signal"
    unfolding trigger_def td by (simp add: tv split: sum.split)
qed

text \<open>
  C2.  The comment in \<open>setup_antenna\<close> and the specification both say that the
  calibration is taken on the noise after the tunnel diode.  The code takes the mean and
  the RMS of the noise itself.  On the noise \<open>spike_noise\<close> it stores the mean
  \<open>1/10001\<close>, while the tunnel-diode response to that noise has a negative mean, however
  the quotient \<open>1e-7 / dt\<close> is rounded.
\<close>

theorem calibration_skips_tunnel_diode:
  "power_mean (setup_antenna spike_noise unit_system) = 1 / 10001
   \<and> (fl_quotient ops t_max (1 / 10 ^ 10) = Some q \<and> 0 \<le> py_int q \<longrightarrow>
        tunnel_diode ops (setup_antenna spike_noise unit_system)
            (spike_noise (linspace 0 (1 / 10 ^ 6) 10001))
          = Inr (tunnel_diode_spec 100 (1 / 10 ^ 10) (nat (py_int q))
                  (spike_noise (linspace 0 (1 / 10 ^ 6) 10001)))
        \<and> mean (sig_values (tunnel_diode_spec 100 (1 / 10 ^ 10) (nat (py_int q))
                                (spike_noise (linspace 0 (1 / 10 ^ 6) 10001)))) < 0)"
proof (intro conjI impI)
  let ?n = "spike_noise (linspace 0 (1 / 10 ^ 6) 10001)"
  have v: "sig_values ?n = replicate 10000 0 @ [1]" by (simp add: spike_noise_def)
  have t: "sig_times ?n = linspace 0 (1 / 10 ^ 6) (Suc (Suc 9999))" by (simp add: spike_noise_def)
  have d: "dt ?n = Some (1 / 10 ^ 10)" using dt_linspace [OF t] by simp
  have a: "antenna (setup_antenna spike_noise unit_system) = bare_antenna"
    by (simp add: setup_antenna_def unit_system_def Let_def)
  have "mean (sig_values ?n) = 1 / 10001" unfolding v mean_spike by simp
  then show "power_mean (setup_antenna spike_noise unit_system) = 1 / 10001"
    by (simp add: setup_antenna_def Let_def)
  show "mean (sig_values (tunnel_diode_spec 100 (1 / 10 ^ 10) (nat (py_int q)) ?n)) < 0"
    unfolding spec_spike [OF v] mean_spike using Kernel_0_neg
    by (simp add: field_simps)
  assume q: "fl_quotient ops t_max (1 / 10 ^ 10) = Some q \<and> 0 \<le> py_int q"
  show "tunnel_diode ops (setup_antenna spike_noise unit_system) ?n
          = Inr (tunnel_diode_spec 100 (1 / 10 ^ 10) (nat (py_int q)) ?n)"
    using tunnel_diode_refines [of ?n "1 / 10 ^ 10" ops q "setup_antenna spike_noise unit_system"]
      d a q
    by (simp add: spike_noise_def bare_antenna_def)
qed

theorem calibration_skips_tunnel_diode_witness:
  "power_mean (setup_antenna spike_noise unit_system) = 1 / 10001
   \<and> fl_quotient double_ops t_max (1 / 10 ^ 10) = Some 1000 \<and> 0 \<le> py_int 1000
   \<and> tunnel_diode double_ops (setup_antenna spike_noise unit_system)
            (spike_noise (linspace 0 (1 / 10 ^ 6) 10001))
          = Inr (tunnel_diode_spec 100 (1 / 10 ^ 10) 1000
                  (spike_noise (linspace 0 (1 / 10 ^ 6) 10001)))
   \<and> mean (sig_values (tunnel_diode_spec 100 (1 / 10 ^ 10) 1000
                                (spike_noise (linspace 0 (1 / 10 ^ 6) 10001)))) < 0"
proof -
  have i: "py_int 1000 = 1000" by (simp add: py_int_def)
  show ?thesis
    using calibration_skips_tunnel_diode [of double_ops 1000] quotient_1000
    by (simp add: i)
qed

text \<open>
  C3.  When the tunnel diode returns a waveform, \<open>trigger\<close> is true exactly when the
  minimum of that waveform is strictly below \<open>mean - rms * |threshold|\<close> or its maximum
  is strictly above \<open>mean + rms * |threshold|\<close>.  With mean 0, rms 1 and threshold 5, a
  diode output whose maximum is 6.2 gives true, and one whose values all lie strictly
  between -5 and 5 gives false.
\<close>

theorem trigger_band_decision:
  "(tunnel_diode ops sys signal = Inr p \<and> sig_values p \<noteq> [] \<longrightarrow>
      trigger ops sys signal =
        Inr (Min (set (sig_values p)) < power_mean sys - power_rms sys * \<bar>power_threshold sys\<bar> \<or>
             Max (set (sig_values p)) > power_mean sys + power_rms sys * \<bar>power_threshold sys\<bar>))
   \<and> (power_mean sys = 0 \<and> power_rms sys = 1 \<and> power_threshold sys = 5 \<and>
        vs \<noteq> [] \<and> Max (set vs) = 62 / 10 \<longrightarrow> trigger_values sys vs = Inr True)
   \<and> (power_mean sys = 0 \<and> power_rms sys = 1 \<and> power_threshold sys = 5 \<and>
        ws \<noteq> [] \<and> (\<forall>w\<in>set ws. - 5 < w \<and> w < 5) \<longrightarrow> trigger_values sys ws = Inr False)"
proof (intro conjI impI)
  assume "tunnel_diode ops sys signal = Inr p \<and> sig_values p \<noteq> []"
  then show "trigger ops sys signal =
        Inr (Min (set (sig_values p)) < power_mean sys - power_rms sys * \<bar>power_threshold sys\<bar> \<or>
             Max (set (sig_values p)) > power_mean sys + power_rms sys * \<bar>power_threshold sys\<bar>)"
    by (simp add: trigger_def trigger_values_def low_trigger_def high_trigger_def)
next
  assume "power_mean sys = 0 \<and> power_rms sys = 1 \<and> power_threshold sys = 5 \<and>
        vs \<noteq> [] \<and> Max (set vs) = 62 / 10"
  then show "trigger_values sys vs = Inr True"
    by (simp add: trigger_values_def low_trigger_def high_trigger_def)
next
  assume a: "power_mean sys = 0 \<and> power_rms sys = 1 \<and> power_threshold sys = 5 \<and>
        ws \<noteq> [] \<and> (\<forall>w\<in>set ws. - 5 < w \<and> w < 5)"
  then have "Min (set ws) \<in> set ws" "Max (set ws) \<in> set ws"
    by simp_all
  then have "- 5 < Min (set ws)" "Max (set ws) < 5" using a by blast+
  then have "\<not> Min (set ws) < - 5" "\<not> 5 < Max (set ws)" by linarith+
  then show "trigger_values sys ws = Inr False" using a
    by (simp add: trigger_values_def low_trigger_def high_trigger_def)
qed

theorem trigger_band_decision_witness:
  "tunnel_diode double_ops unit_system silence = Inr (tunnel_diode_spec 100 (1 / 10 ^ 7) 1 silence)
   \<and> sig_values (tunnel_diode_spec 100 (1 / 10 ^ 7) 1 silence) \<noteq> []
   \<and> trigger double_ops unit_system silence = Inr False
   \<and> power_mean unit_system = 0 \<and> power_rms unit_system = 1 \<and> power_threshold unit_system = 5
   \<and> Max (set [1, 62 / 10, - 3 :: real]) = 62 / 10
   \<and> trigger_values unit_system [1, 62 / 10, - 3] = Inr True
   \<and> - 5 < (- 4 :: real) \<and> (- 4 :: real) < 5 \<and> - 5 < (49 / 10 :: real) \<and> (49 / 10 :: real) < 5
   \<and> trigger_values unit_system [- 4, 0, 49 / 10] = Inr False"
  using trigger_band_decision [of double_ops unit_system silence
      "tunnel_diode_spec 100 (1 / 10 ^ 7) 1 silence" "[1, 62 / 10, - 3]" "[- 4, 0, 49 / 10]"]
    tunnel_diode_silence spec_silence
  by (simp add: unit_system_def)

text \<open>
  C10.  Replacing \<open>power_threshold\<close> by its negation does not change the result of
  \<open>trigger\<close> on any signal, and when the calibrated rms is not negative the calibrated
  mean lies between the two ends of the trigger band.
\<close>

theorem trigger_threshold_sign:
  "trigger ops (sys\<lparr>power_threshold := - power_threshold sys\<rparr>) signal = trigger ops sys signal
   \<and> (0 \<le> power_rms sys \<longrightarrow> low_trigger sys \<le> power_mean sys \<and> power_mean sys \<le> high_trigger sys)"
proof
  let ?sys' = "sys\<lparr>power_threshold := - power_threshold sys\<rparr>"
  have td: "tunnel_diode ops ?sys' signal = tunnel_diode ops sys signal"
    by (rule tunnel_diode_antenna_only) simp
  have tv: "\<And>vs. trigger_values ?sys' vs = trigger_values sys vs"
    by (rule trigger_values_band_only) (simp_all add: low_trigger_def high_trigger_def)
  show "trigger ops ?sys' signal = trigger ops sys signal"
    unfolding trigger_def td by (simp add: tv split: sum.split)
next
  show "0 \<le> power_rms sys \<longrightarrow> low_trigger sys \<le> power_mean sys \<and> power_mean sys \<le> high_trigger sys"
    by (simp add: low_trigger_def high_trigger_def)
qed

theorem trigger_threshold_sign_witness:
  "trigger double_ops (unit_system\<lparr>power_threshold := - power_threshold unit_system\<rparr>) pulse
     = trigger double_ops unit_system pulse
   \<and> 0 \<le> power_rms unit_system
   \<and> low_trigger unit_system = - 5 \<and> high_trigger unit_system = 5
   \<and> low_trigger unit_system \<le> power_mean unit_system
   \<and> power_mean unit_system \<le> high_trigger unit_system"
  using trigger_threshold_sign [of double_ops unit_system pulse]
  by (simp add: unit_system_def low_trigger_def high_trigger_def)

section \<open>The antenna\<close>

subsection \<open>Grid arithmetic\<close>

lemma under_over:
  assumes "0 \<le> x"
  shows "under_5 x = 5 * \<lfloor>x / 5\<rfloor>" and "over_5 x = 5 * \<lfloor>x / 5\<rfloor> + 5"
    and "weight x = x / 5 - of_int \<lfloor>x / 5\<rfloor>"
  using assms by (simp_all add: under_5_def over_5_def weight_def py_int_def field_simps)

lemma weight_range:
  assumes "0 \<le> x"
  shows "0 \<le> weight x" and "weight x < 1"
proof -
  have "of_int \<lfloor>x / 5\<rfloor> \<le> x / 5" "x / 5 < of_int \<lfloor>x / 5\<rfloor> + 1" by linarith+
  then show "0 \<le> weight x" and "weight x < 1"
    unfolding under_over(3) [OF assms] by linarith+
qed

lemma grid_index:
  assumes "0 \<le> x" and "x < 5 * real_of_int n"
  shows "0 \<le> \<lfloor>x / 5\<rfloor>" and "\<lfloor>x / 5\<rfloor> < n"
proof -
  show "0 \<le> \<lfloor>x / 5\<rfloor>" using assms(1) by simp
  have "x / 5 < real_of_int n" using assms(2) by simp
  then show "\<lfloor>x / 5\<rfloor> < n" by (simp add: floor_less_iff)
qed

lemma wrap_grid:
  fixes k n :: int
  assumes "0 \<le> k" and "k < n" and "0 < n"
  shows "(5 * k + 5) mod (5 * n) = 5 * ((k + 1) mod n)"
    and "0 \<le> (k + 1) mod n" and "(k + 1) mod n < n"
proof -
  have "5 * k + 5 = 5 * (k + 1)" by simp
  then show "(5 * k + 5) mod (5 * n) = 5 * ((k + 1) mod n)"
    by (simp only: mult_mod_right)
  show "0 \<le> (k + 1) mod n" "(k + 1) mod n < n" using assms by simp_all
qed

lemma lookup_present:
  "data key \<noteq> None \<Longrightarrow> lookup_gain data key = Inr (stored_gain data key)"
  by (auto simp: lookup_gain_def stored_gain_def split: option.splits)

lemma corner_gains_present:
  assumes "\<forall>f\<in>set freqs. data (f, tu, pu) \<noteq> None \<and> data (f, to, pu) \<noteq> None \<and>
                          data (f, tu, po) \<noteq> None \<and> data (f, to, po) \<noteq> None"
  shows "corner_gains data tu to pu po freqs =
           Inr (map (\<lambda>f. (stored_gain data (f, tu, pu), stored_gain data (f, to, pu),
                          stored_gain data (f, tu, po), stored_gain data (f, to, po))) freqs)"
  using assms by (induction freqs) (simp_all add: lookup_present)

lemma rectangularD:
  "rectangular data freqs \<Longrightarrow> f \<in> set freqs \<Longrightarrow> 0 \<le> i \<Longrightarrow> i < 36 \<Longrightarrow> 0 \<le> j \<Longrightarrow> j < 72
     \<Longrightarrow> data (f, 5 * i, 5 * j) \<noteq> None"
  by (simp add: rectangular_def)

lemma generate_freq_gains_rectangular:
  assumes d: "response_data ant = Some data" and fr: "response_freqs ant = Some freqs"
    and r: "rectangular data freqs"
    and da: "fl_degrees ops theta = Some a" and db: "fl_degrees ops phi = Some b"
    and th: "fl_mod ops a 180 = th" "0 \<le> th" "th < 180"
    and ph: "fl_mod ops b 360 = ph" "0 \<le> ph" "ph < 360"
  shows "generate_freq_gains ops ant theta phi =
     Inr (freqs,
          map (\<lambda>f. blend (weight th) (weight ph)
                  (stored_gain data (f, 5 * \<lfloor>th / 5\<rfloor>, 5 * \<lfloor>ph / 5\<rfloor>),
                   stored_gain data (f, (5 * \<lfloor>th / 5\<rfloor> + 5) mod 180, 5 * \<lfloor>ph / 5\<rfloor>),
                   stored_gain data (f, 5 * \<lfloor>th / 5\<rfloor>, (5 * \<lfloor>ph / 5\<rfloor> + 5) mod 360),
                   stored_gain data (f, (5 * \<lfloor>th / 5\<rfloor> + 5) mod 180,
                                       (5 * \<lfloor>ph / 5\<rfloor> + 5) mod 360)))
              freqs)"
proof -
  define i where "i = \<lfloor>th / 5\<rfloor>"
  define j where "j = \<lfloor>ph / 5\<rfloor>"
  have i: "0 \<le> i" "i < 36" unfolding i_def using grid_index [of th 36] th by simp_all
  have j: "0 \<le> j" "j < 72" unfolding j_def using grid_index [of ph 72] ph by simp_all
  have wi: "(5 * i + 5) mod 180 = 5 * ((i + 1) mod 36)" "0 \<le> (i + 1) mod 36" "(i + 1) mod 36 < 36"
    using wrap_grid [of i 36] i by simp_all
  have wj: "(5 * j + 5) mod 360 = 5 * ((j + 1) mod 72)" "0 \<le> (j + 1) mod 72" "(j + 1) mod 72 < 72"
    using wrap_grid [of j 72] j by simp_all
  have keys: "\<forall>f\<in>set freqs.
      data (f, 5 * i, 5 * j) \<noteq> None \<and> data (f, (5 * i + 5) mod 180, 5 * j) \<noteq> None \<and>
      data (f, 5 * i, (5 * j + 5) mod 360) \<noteq> None \<and>
      data (f, (5 * i + 5) mod 180, (5 * j + 5) mod 360) \<noteq> None"
    unfolding wi(1) wj(1) using r i j wi(2,3) wj(2,3) by (simp add: rectangularD)
  have u: "under_5 th = 5 * i" "over_5 th = 5 * i + 5" "under_5 ph = 5 * j" "over_5 ph = 5 * j + 5"
    unfolding i_def j_def using under_over(1,2) th(2) ph(2) by simp_all
  have "generate_freq_gains ops ant theta phi =
     Inr (freqs,
          map (blend (weight th) (weight ph))
            (map (\<lambda>f. (stored_gain data (f, 5 * i, 5 * j),
                       stored_gain data (f, (5 * i + 5) mod 180, 5 * j),
                       stored_gain data (f, 5 * i, (5 * j + 5) mod 360),
                       stored_gain data (f, (5 * i + 5) mod 180, (5 * j + 5) mod 360))) freqs))"
    unfolding generate_freq_gains_def d fr da db
    by (simp add: Let_def th(1) ph(1) u corner_gains_present [OF keys])
  then show ?thesis
    unfolding i_def j_def by (simp add: comp_def)
qed

lemma blend_bounds:
  assumes t: "0 \<le> t" "t \<le> 1" and u: "0 \<le> u" "u \<le> 1"
    and lo: "m \<le> a" "m \<le> b" "m \<le> c" "m \<le> d"
    and hi: "a \<le> M" "b \<le> M" "c \<le> M" "d \<le> M"
  shows "m \<le> blend t u (a, b, c, d)" and "blend t u (a, b, c, d) \<le> M"
proof -
  have w: "0 \<le> (1 - t) * (1 - u)" "0 \<le> t * (1 - u)" "0 \<le> (1 - t) * u" "0 \<le> t * u"
    using t u by simp_all
  have s: "(1 - t) * (1 - u) + t * (1 - u) + (1 - t) * u + t * u = 1" by (simp add: algebra_simps)
  have "(1 - t) * (1 - u) * m + t * (1 - u) * m + (1 - t) * u * m + t * u * m
          \<le> (1 - t) * (1 - u) * a + t * (1 - u) * b + (1 - t) * u * c + t * u * d"
    by (intro add_mono mult_left_mono w lo)
  moreover have "(1 - t) * (1 - u) * m + t * (1 - u) * m + (1 - t) * u * m + t * u * m = m"
    using s by (simp add: algebra_simps)
  ultimately show "m \<le> blend t u (a, b, c, d)" by (simp add: blend_def)
  have "(1 - t) * (1 - u) * a + t * (1 - u) * b + (1 - t) * u * c + t * u * d
          \<le> (1 - t) * (1 - u) * M + t * (1 - u) * M + (1 - t) * u * M + t * u * M"
    by (intro add_mono mult_left_mono w hi)
  moreover have "(1 - t) * (1 - u) * M + t * (1 - u) * M + (1 - t) * u * M + t * u * M = M"
    using s by (simp add: algebra_simps)
  ultimately show "blend t u (a, b, c, d) \<le> M" by (simp add: blend_def)
qed

lemma blend_between:
  assumes "0 \<le> t" "t \<le> 1" "0 \<le> u" "u \<le> 1"
  shows "Min (set [a, b, c, d]) \<le> blend t u (a, b, c, d) \<and>
         blend t u (a, b, c, d) \<le> Max (set [a, b, c, d])"
proof -
  let ?S = "set [a, b, c, d]"
  have lo: "Min ?S \<le> a" "Min ?S \<le> b" "Min ?S \<le> c" "Min ?S \<le> d"
    by (rule Min_le; simp)+
  have hi: "a \<le> Max ?S" "b \<le> Max ?S" "c \<le> Max ?S" "d \<le> Max ?S"
    by (rule Max_ge; simp)+
  show ?thesis
    by (intro conjI blend_bounds [where m = "Min ?S" and M = "Max ?S"] assms lo hi)
qed

lemma rectangular_grid_table: "rectangular grid_table [5 * 10 ^ 8]"
  by (auto simp: rectangular_def grid_table_def)

lemma grid_antenna_fields:
  "response_data grid_antenna = Some grid_table" "response_freqs grid_antenna = Some [5 * 10 ^ 8]"
  by (simp_all add: grid_antenna_def)

subsection \<open>The double instance at the example angles\<close>

lemma degrees_0: "fl_degrees double_ops 0 = Some 0"
  by (simp add: double_ops_def finite_double_def rnd53_def)

lemma degrees_15: "fl_degrees double_ops radians_15 = Some (15 - 1 / 2 ^ 49)"
proof -
  let ?y = "4716158501352293 * 8063664102031864 / 2 ^ 52 :: real"
  have r: "round_even ?y = 8444249301319679"
    by (simp add: round_even_def Let_def)
  have "rnd53 (?y / 2 ^ 49) = of_int (round_even ?y) / 2 ^ 49"
    by (rule rnd53_div_pow) simp_all
  then have "rnd53 (radians_15 * rad2deg) = 15 - 1 / 2 ^ 49"
    unfolding r by (simp add: radians_15_def rad2deg_def)
  then show ?thesis by (simp add: double_ops_def finite_double_def)
qed

lemma degrees_90: "fl_degrees double_ops radians_90 = Some 90"
proof -
  let ?y = "7074237752028440 * 8063664102031864 / 2 ^ 53 :: real"
  have r: "round_even ?y = 6333186975989760"
    by (simp add: round_even_def Let_def)
  have "rnd53 (?y / 2 ^ 46) = of_int (round_even ?y) / 2 ^ 46"
    by (rule rnd53_div_pow) simp_all
  then have "rnd53 (radians_90 * rad2deg) = 90"
    unfolding r by (simp add: radians_90_def rad2deg_def)
  then show ?thesis by (simp add: double_ops_def finite_double_def)
qed

lemma degrees_tiny: "fl_degrees double_ops (- 1 / 2 ^ 70) = Some (- 8063664102031864 / 2 ^ 117)"
proof -
  have "rnd53 (- 8063664102031864 / 2 ^ 117) = of_int (round_even (- 8063664102031864)) / 2 ^ 117"
    by (rule rnd53_div_pow) simp_all
  then have "rnd53 (- 1 / 2 ^ 70 * rad2deg) = - 8063664102031864 / 2 ^ 117"
    by (simp add: rad2deg_def)
  then show ?thesis by (simp add: double_ops_def finite_double_def)
qed

lemma mod_in_range:
  "0 \<le> x \<Longrightarrow> x < m \<Longrightarrow> fl_mod double_ops x m = x"
proof -
  assume a: "0 \<le> x" "x < m"
  then have "\<lfloor>x / m\<rfloor> = 0" by (simp add: floor_eq_iff)
  then have "c_fmod x m = x" using a by (simp add: c_fmod_def py_int_def)
  then show ?thesis using a by (auto simp: double_ops_def Let_def)
qed

lemma mod_tiny_180: "fl_mod double_ops (- 8063664102031864 / 2 ^ 117) 180 = 180"
proof -
  let ?x = "- 8063664102031864 / 2 ^ 117 :: real"
  let ?y = "(?x + 180) * 2 ^ 45"
  have "\<lceil>?x / 180\<rceil> = 0" by (simp add: ceiling_eq_iff)
  then have c: "c_fmod ?x 180 = ?x" by (simp add: c_fmod_def py_int_def)
  have r: "round_even ?y = 6333186975989760"
    by (simp add: round_even_def Let_def)
  have "rnd53 (?y / 2 ^ 45) = of_int (round_even ?y) / 2 ^ 45"
    by (rule rnd53_div_pow) simp_all
  then have "rnd53 (?x + 180) = 180" unfolding r by simp
  then show ?thesis unfolding double_ops_def using c by (simp add: Let_def)
qed

lemma mod_tiny_360: "fl_mod double_ops (- 8063664102031864 / 2 ^ 117) 360 = 360"
proof -
  let ?x = "- 8063664102031864 / 2 ^ 117 :: real"
  let ?y = "(?x + 360) * 2 ^ 44"
  have "\<lceil>?x / 360\<rceil> = 0" by (simp add: ceiling_eq_iff)
  then have c: "c_fmod ?x 360 = ?x" by (simp add: c_fmod_def py_int_def)
  have r: "round_even ?y = 6333186975989760"
    by (simp add: round_even_def Let_def)
  have "rnd53 (?y / 2 ^ 44) = of_int (round_even ?y) / 2 ^ 44"
    by (rule rnd53_div_pow) simp_all
  then have "rnd53 (?x + 360) = 360" unfolding r by simp
  then show ?thesis unfolding double_ops_def using c by (simp add: Let_def)
qed

lemma gains_at_90: "generate_freq_gains double_ops grid_antenna radians_90 0 = Inr ([5 * 10 ^ 8], [90])"
proof -
  have m: "fl_mod double_ops 90 180 = 90" "fl_mod double_ops 0 360 = 0"
    by (simp_all add: mod_in_range)
  have w: "weight 90 = 0" "weight 0 = 0" by (simp_all add: under_over(3))
  show ?thesis
    using generate_freq_gains_rectangular [OF grid_antenna_fields rectangular_grid_table
        degrees_90 degrees_0 m(1) _ _ m(2)]
    by (simp add: w blend_def stored_gain_def grid_table_def)
qed

lemma gains_at_15:
  "generate_freq_gains double_ops grid_antenna radians_15 0 = Inr ([5 * 10 ^ 8], [15 - 1 / 2 ^ 49])"
proof -
  have m: "fl_mod double_ops (15 - 1 / 2 ^ 49) 180 = 15 - 1 / 2 ^ 49" "fl_mod double_ops 0 360 = 0"
    by (simp_all add: mod_in_range)
  have f: "\<lfloor>(15 - 1 / 2 ^ 49) / 5 :: real\<rfloor> = 2" by (simp add: floor_eq_iff)
  have w: "weight (15 - 1 / 2 ^ 49) = 1 - 1 / (5 * 2 ^ 49)" "weight 0 = 0"
    by (simp_all add: under_over(3) f)
  show ?thesis
    using generate_freq_gains_rectangular [OF grid_antenna_fields rectangular_grid_table
        degrees_15 degrees_0 m(1) _ _ m(2)] f w
    by (simp add: blend_def stored_gain_def grid_table_def)
qed

subsection \<open>The interpolated gain\<close>

text \<open>
  C5, as the specification states it: a table with no entries gives the unity sentinel.
  An antenna built on the empty table \<open>{}\<close> has the empty frequency set; for it the code
  makes no lookup and returns two empty arrays, not the sentinel.
\<close>

theorem empty_table_counterexample:
  "response_data empty_table_antenna = Some Map.empty
   \<and> generate_freq_gains double_ops empty_table_antenna 0 0 = Inr ([], [])
   \<and> generate_freq_gains double_ops empty_table_antenna 0 0 \<noteq> Inr ([1], [1])"
  by (simp add: generate_freq_gains_def empty_table_antenna_def degrees_0)

text \<open>
  C5, amended.  An antenna with no response table (\<open>_response_data\<close> is \<open>None\<close>: no
  measured response) gets the sentinel \<open>([1], [1])\<close> from \<open>generate_freq_gains\<close> at
  every pair of angles, whatever the frequency set and the float arithmetic are; no lookup
  is made, so no \<open>KeyError\<close> can arise.
\<close>

theorem no_response_unity:
  "response_data ant = None \<longrightarrow> generate_freq_gains ops ant theta phi = Inr ([1], [1])"
  by (simp add: generate_freq_gains_def)

theorem no_response_unity_witness:
  "response_data bare_antenna = None
   \<and> generate_freq_gains double_ops bare_antenna radians_15 radians_90 = Inr ([1], [1])"
  using no_response_unity [of bare_antenna double_ops radians_15 radians_90]
  by (simp add: bare_antenna_def)

text \<open>
  C6, as the specification states it: at a grid angle the stored gain is returned exactly.
  The angles are given in radians and the code converts them with \<open>np.degrees\<close>.  The
  double for 15 degrees, \<open>np.radians(15)\<close>, is converted to \<open>15 - 2^-49\<close>, which lies in
  the cell from 10 to 15 degrees with weight just below one, and the gain returned on the
  table \<open>grid_table\<close> is \<open>15 - 2^-49\<close> where 15 is stored.
\<close>

theorem grid_point_rounding_counterexample:
  "generate_freq_gains double_ops grid_antenna radians_15 0 = Inr ([5 * 10 ^ 8], [15 - 1 / 2 ^ 49])
   \<and> stored_gain grid_table (5 * 10 ^ 8, 15, 0) = 15
   \<and> generate_freq_gains double_ops grid_antenna radians_15 0
       \<noteq> Inr ([5 * 10 ^ 8], [stored_gain grid_table (5 * 10 ^ 8, 15, 0)])"
proof -
  have s: "stored_gain grid_table (5 * 10 ^ 8, 15, 0) = 15"
    by (simp add: stored_gain_def grid_table_def)
  show ?thesis unfolding s gains_at_15 by simp
qed

text \<open>
  C6, amended.  On a rectangular table, whenever the angles in degrees that the code
  computes, \<open>np.degrees(theta) % 180\<close> and \<open>np.degrees(phi) % 360\<close>, are exactly \<open>5 i\<close>
  (\<open>i < 36\<close>) and \<open>5 j\<close> (\<open>j < 72\<close>), the gain returned for every frequency of the table
  is the gain stored at \<open>(frequency, 5 i, 5 j)\<close>.
\<close>

theorem grid_point_exact:
  "response_data ant = Some data \<and> response_freqs ant = Some freqs \<and> rectangular data freqs \<and>
   i < 36 \<and> j < 72 \<and>
   fl_degrees ops theta = Some a \<and> fl_mod ops a 180 = 5 * real i \<and>
   fl_degrees ops phi = Some b \<and> fl_mod ops b 360 = 5 * real j
   \<longrightarrow> generate_freq_gains ops ant theta phi =
         Inr (freqs, map (\<lambda>f. stored_gain data (f, 5 * int i, 5 * int j)) freqs)"
proof
  assume a: "response_data ant = Some data \<and> response_freqs ant = Some freqs \<and>
   rectangular data freqs \<and> i < 36 \<and> j < 72 \<and>
   fl_degrees ops theta = Some a \<and> fl_mod ops a 180 = 5 * real i \<and>
   fl_degrees ops phi = Some b \<and> fl_mod ops b 360 = 5 * real j"
  have fl: "\<lfloor>5 * real i / 5\<rfloor> = int i" "\<lfloor>5 * real j / 5\<rfloor> = int j"
    by simp_all
  have w: "weight (5 * real i) = 0" "weight (5 * real j) = 0"
    by (simp_all add: under_over(3))
  have "generate_freq_gains ops ant theta phi =
     Inr (freqs,
          map (\<lambda>f. blend (weight (5 * real i)) (weight (5 * real j))
                  (stored_gain data (f, 5 * \<lfloor>5 * real i / 5\<rfloor>, 5 * \<lfloor>5 * real j / 5\<rfloor>),
                   stored_gain data (f, (5 * \<lfloor>5 * real i / 5\<rfloor> + 5) mod 180, 5 * \<lfloor>5 * real j / 5\<rfloor>),
                   stored_gain data (f, 5 * \<lfloor>5 * real i / 5\<rfloor>, (5 * \<lfloor>5 * real j / 5\<rfloor> + 5) mod 360),
                   stored_gain data (f, (5 * \<lfloor>5 * real i / 5\<rfloor> + 5) mod 180,
                                       (5 * \<lfloor>5 * real j / 5\<rfloor> + 5) mod 360)))
              freqs)"
    using a by (intro generate_freq_gains_rectangular [where a = a and b = b]) simp_all
  then show "generate_freq_gains ops ant theta phi =
         Inr (freqs, map (\<lambda>f. stored_gain data (f, 5 * int i, 5 * int j)) freqs)"
    unfolding fl w by (simp add: blend_def)
qed

theorem grid_point_exact_witness:
  "response_data grid_antenna = Some grid_table \<and> response_freqs grid_antenna = Some [5 * 10 ^ 8] \<and>
   rectangular grid_table [5 * 10 ^ 8] \<and> (18::nat) < 36 \<and> (0::nat) < 72 \<and>
   fl_degrees double_ops radians_90 = Some 90 \<and> fl_mod double_ops 90 180 = 5 * real 18 \<and>
   fl_degrees double_ops 0 = Some 0 \<and> fl_mod double_ops 0 360 = 5 * real 0 \<and>
   generate_freq_gains double_ops grid_antenna radians_90 0 = Inr ([5 * 10 ^ 8], [90])"
  using grid_point_exact [of grid_antenna grid_table "[5 * 10 ^ 8]" 18 0 double_ops radians_90 90 0 0]
    rectangular_grid_table degrees_90 degrees_0
  by (simp add: grid_antenna_fields mod_in_range stored_gain_def grid_table_def)

text \<open>
  Where the angles in degrees that the code computes are below 180 and 360, the weights
  \<open>t\<close> and \<open>u\<close> lie in \<open>[0, 1)\<close> and, on a rectangular table, the gain returned for each
  frequency lies between the least and the greatest of the four corner gains.
\<close>

lemma bilinear_bounds_in_range:
  assumes "response_data ant = Some data" "response_freqs ant = Some freqs" "rectangular data freqs"
    and "fl_degrees ops theta = Some a" "fl_degrees ops phi = Some b"
    and th: "fl_mod ops a 180 = th" "0 \<le> th" "th < 180"
    and ph: "fl_mod ops b 360 = ph" "0 \<le> ph" "ph < 360"
  shows "0 \<le> weight th \<and> weight th < 1 \<and> 0 \<le> weight ph \<and> weight ph < 1 \<and>
     (\<exists>gains. generate_freq_gains ops ant theta phi = Inr (freqs, gains) \<and>
         length gains = length freqs \<and>
         (\<forall>k<length freqs.
            Min (set (surrounding_gains data (freqs ! k) th ph)) \<le> gains ! k \<and>
            gains ! k \<le> Max (set (surrounding_gains data (freqs ! k) th ph))))"
proof -
  have t: "0 \<le> weight th" "weight th < 1" using weight_range [OF th(2)] by simp_all
  have u: "0 \<le> weight ph" "weight ph < 1" using weight_range [OF ph(2)] by simp_all
  have b: "Min (set (surrounding_gains data f th ph))
               \<le> blend (weight th) (weight ph)
                  (stored_gain data (f, 5 * \<lfloor>th / 5\<rfloor>, 5 * \<lfloor>ph / 5\<rfloor>),
                   stored_gain data (f, (5 * \<lfloor>th / 5\<rfloor> + 5) mod 180, 5 * \<lfloor>ph / 5\<rfloor>),
                   stored_gain data (f, 5 * \<lfloor>th / 5\<rfloor>, (5 * \<lfloor>ph / 5\<rfloor> + 5) mod 360),
                   stored_gain data (f, (5 * \<lfloor>th / 5\<rfloor> + 5) mod 180, (5 * \<lfloor>ph / 5\<rfloor> + 5) mod 360))
             \<and> blend (weight th) (weight ph)
                  (stored_gain data (f, 5 * \<lfloor>th / 5\<rfloor>, 5 * \<lfloor>ph / 5\<rfloor>),
                   stored_gain data (f, (5 * \<lfloor>th / 5\<rfloor> + 5) mod 180, 5 * \<lfloor>ph / 5\<rfloor>),
                   stored_gain data (f, 5 * \<lfloor>th / 5\<rfloor>, (5 * \<lfloor>ph / 5\<rfloor> + 5) mod 360),
                   stored_gain data (f, (5 * \<lfloor>th / 5\<rfloor> + 5) mod 180, (5 * \<lfloor>ph / 5\<rfloor> + 5) mod 360))
               \<le> Max (set (surrounding_gains data f th ph))" for f
    unfolding surrounding_gains_def Let_def
    using t u by (intro blend_between) simp_all
  have "\<exists>gains. generate_freq_gains ops ant theta phi = Inr (freqs, gains) \<and>
         length gains = length freqs \<and>
         (\<forall>k<length freqs.
            Min (set (surrounding_gains data (freqs ! k) th ph)) \<le> gains ! k \<and>
            gains ! k \<le> Max (set (surrounding_gains data (freqs ! k) th ph)))"
    unfolding generate_freq_gains_rectangular [OF assms] using b by simp
  then show ?thesis using t u by blast
qed

text \<open>
  C7.  The claim is for every pair of angles.  The remainder \<open>%\<close> of a double that is
  negative and tiny is the modulus itself.  For \<open>theta = -2^-70\<close> the code computes
  \<open>np.degrees(theta) % 180 = 180.0\<close>, so \<open>theta_under\<close> is 180, which is no angle of the
  grid (\<open>theta_over\<close> is wrapped by \<open>%= 180\<close>, \<open>theta_under\<close> is not), and on the
  rectangular table \<open>grid_table\<close> the first lookup raises \<open>KeyError\<close>: no gain is
  returned.  The same happens for \<open>phi = -2^-70\<close>, an azimuth just below the x axis, where
  \<open>phi_under\<close> is 360.
\<close>

theorem lookup_fails_at_modulus:
  "fl_degrees double_ops (- 1 / 2 ^ 70) = Some (- 8063664102031864 / 2 ^ 117)
   \<and> fl_mod double_ops (- 8063664102031864 / 2 ^ 117) 180 = 180
   \<and> fl_mod double_ops (- 8063664102031864 / 2 ^ 117) 360 = 360
   \<and> under_5 180 = 180 \<and> under_5 360 = 360
   \<and> generate_freq_gains double_ops grid_antenna (- 1 / 2 ^ 70) 0 = Inl KeyError
   \<and> generate_freq_gains double_ops grid_antenna radians_90 (- 1 / 2 ^ 70) = Inl KeyError"
proof -
  have u: "under_5 180 = 180" "under_5 360 = 360" "under_5 90 = 90"
    by (simp_all add: under_5_def py_int_def)
  have m: "fl_mod double_ops 0 360 = 0" "fl_mod double_ops 90 180 = 90"
    by (simp_all add: mod_in_range)
  have 1: "generate_freq_gains double_ops grid_antenna (- 1 / 2 ^ 70) 0 = Inl KeyError"
    unfolding generate_freq_gains_def grid_antenna_fields
    using degrees_tiny degrees_0 mod_tiny_180 m u
    by (simp add: Let_def lookup_gain_def grid_table_def)
  have 2: "generate_freq_gains double_ops grid_antenna radians_90 (- 1 / 2 ^ 70) = Inl KeyError"
    unfolding generate_freq_gains_def grid_antenna_fields
    using degrees_tiny degrees_90 mod_tiny_360 m u
    by (simp add: Let_def lookup_gain_def grid_table_def)
  show ?thesis using 1 2 u degrees_tiny mod_tiny_180 mod_tiny_360 by simp
qed

subsection \<open>Receiving a signal\<close>

text \<open>
  C9, as the specification states it: every voltage or field signal is appended.  On an
  antenna whose \<open>antenna_factor\<close> is zero, a field signal that arrives without a
  polarization makes \<open>receive\<close> raise \<open>ZeroDivisionError\<close>, and nothing is appended.
\<close>

theorem receive_zero_factor_counterexample:
  "sig_value_type (pulse\<lparr>sig_value_type := field\<rparr>) = field
   \<and> receive plain_framework double_ops flat_antenna (pulse\<lparr>sig_value_type := field\<rparr>) None None
       = (Some ZeroDivisionError, flat_antenna)
   \<and> length (signals (snd (receive plain_framework double_ops flat_antenna
                              (pulse\<lparr>sig_value_type := field\<rparr>) None None)))
       \<noteq> length (signals flat_antenna) + 1"
  by (simp add: receive_def filtered_copy_def plain_framework_def Let_def flat_antenna_def)

text \<open>
  C9, amended.  Let the filtering that comes before the check of the value type return
  without raising: the band-pass filter and, when an origin is given, the gain query and
  the filter by the interpolated gain.  Then \<open>receive\<close> of a voltage signal, and of a
  field signal when \<open>antenna_factor\<close> is not zero, appends exactly one waveform to the
  stored signals, and \<open>receive\<close> of a signal of any other value type raises
  \<open>ValueError\<close> and leaves the antenna as it was.  Whenever \<open>receive\<close> raises, the
  antenna is left as it was.
\<close>

theorem receive_history:
  "(filtered_copy fw ops ant signal origin = Inr c \<and>
      (sig_value_type signal = voltage \<or> sig_value_type signal = field \<and> antenna_factor ant \<noteq> 0)
      \<longrightarrow>
        (\<exists>w. receive fw ops ant signal origin polarization
               = (None, ant\<lparr>signals := signals ant @ [w]\<rparr>))
        \<and> length (signals (snd (receive fw ops ant signal origin polarization)))
            = length (signals ant) + 1)
   \<and> (filtered_copy fw ops ant signal origin = Inr c \<and>
      sig_value_type signal \<noteq> voltage \<and> sig_value_type signal \<noteq> field \<longrightarrow>
        receive fw ops ant signal origin polarization = (Some ValueError, ant))
   \<and> (fst (receive fw ops ant signal origin polarization) \<noteq> None \<longrightarrow>
        snd (receive fw ops ant signal origin polarization) = ant)"
proof (intro conjI impI)
  assume a: "filtered_copy fw ops ant signal origin = Inr c \<and>
      (sig_value_type signal = voltage \<or> sig_value_type signal = field \<and> antenna_factor ant \<noteq> 0)"
  show e: "\<exists>w. receive fw ops ant signal origin polarization
               = (None, ant\<lparr>signals := signals ant @ [w]\<rparr>)"
    using a by (auto simp: receive_def Let_def)
  then show "length (signals (snd (receive fw ops ant signal origin polarization)))
            = length (signals ant) + 1"
    by auto
next
  assume "filtered_copy fw ops ant signal origin = Inr c \<and>
      sig_value_type signal \<noteq> voltage \<and> sig_value_type signal \<noteq> field"
  then show "receive fw ops ant signal origin polarization = (Some ValueError, ant)"
    by (simp add: receive_def Let_def)
next
  assume "fst (receive fw ops ant signal origin polarization) \<noteq> None"
  then show "snd (receive fw ops ant signal origin polarization) = ant"
    by (auto simp: receive_def Let_def split: sum.splits if_splits)
qed

lemma Signal_init_pulse: "Signal_init (sig_times pulse) (sig_values pulse) voltage = pulse"
  by (simp add: Signal_init_def pulse_def)

lemma filtered_pulse:
  "filtered_copy plain_framework double_ops grid_antenna (pulse\<lparr>sig_value_type := vt\<rparr>)
     (Some (1, 0, 0)) = Inr pulse"
  "filtered_copy plain_framework double_ops grid_antenna (pulse\<lparr>sig_value_type := vt\<rparr>) None
     = Inr pulse"
  using Signal_init_pulse
  by (simp_all add: filtered_copy_def plain_framework_def gains_at_90)

theorem receive_history_witness:
  "filtered_copy plain_framework double_ops grid_antenna pulse (Some (1, 0, 0)) = Inr pulse
   \<and> sig_value_type pulse = voltage
   \<and> length (signals (snd (receive plain_framework double_ops grid_antenna pulse
                              (Some (1, 0, 0)) (Some (0, 0, 1)))))
       = length (signals grid_antenna) + 1
   \<and> filtered_copy plain_framework double_ops grid_antenna (pulse\<lparr>sig_value_type := field\<rparr>) None
       = Inr pulse
   \<and> sig_value_type (pulse\<lparr>sig_value_type := field\<rparr>) = field
   \<and> antenna_factor grid_antenna = 10 / 3
   \<and> length (signals (snd (receive plain_framework double_ops grid_antenna
                              (pulse\<lparr>sig_value_type := field\<rparr>) None None)))
       = length (signals grid_antenna) + 1
   \<and> filtered_copy plain_framework double_ops grid_antenna (pulse\<lparr>sig_value_type := power_vt\<rparr>)
         (Some (1, 0, 0)) = Inr pulse
   \<and> sig_value_type (pulse\<lparr>sig_value_type := power_vt\<rparr>) = power_vt
   \<and> receive plain_framework double_ops grid_antenna (pulse\<lparr>sig_value_type := power_vt\<rparr>)
         (Some (1, 0, 0)) (Some (0, 0, 1)) = (Some ValueError, grid_antenna)
   \<and> fst (receive plain_framework double_ops grid_antenna (pulse\<lparr>sig_value_type := power_vt\<rparr>)
         (Some (1, 0, 0)) (Some (0, 0, 1))) = Some ValueError
   \<and> snd (receive plain_framework double_ops grid_antenna (pulse\<lparr>sig_value_type := power_vt\<rparr>)
         (Some (1, 0, 0)) (Some (0, 0, 1))) = grid_antenna"
proof -
  have p: "pulse\<lparr>sig_value_type := voltage\<rparr> = pulse" by (simp add: pulse_def)
  have f: "filtered_copy plain_framework double_ops grid_antenna pulse (Some (1, 0, 0)) = Inr pulse"
    using filtered_pulse(1) [of voltage] by (simp add: p)
  have v: "sig_value_type pulse = voltage" by (simp add: pulse_def)
  have af: "antenna_factor grid_antenna = 10 / 3" by (simp add: grid_antenna_def bare_antenna_def)
  show ?thesis
    using receive_history [of plain_framework double_ops grid_antenna pulse "Some (1, 0, 0)" pulse
              "Some (0, 0, 1)"]
      receive_history [of plain_framework double_ops grid_antenna "pulse\<lparr>sig_value_type := field\<rparr>"
              None pulse None]
      receive_history [of plain_framework double_ops grid_antenna
              "pulse\<lparr>sig_value_type := power_vt\<rparr>" "Some (1, 0, 0)" pulse "Some (0, 0, 1)"]
      f v af filtered_pulse [of field] filtered_pulse [of power_vt]
    by simp
qed

end
